theory Spec2Isabelle
  imports Complex_Main "HOL-Library.Product_Lexorder" "HOL-Library.Log_Nat"
begin

section \<open>Data model (backend/app/models/sip\_trunk.py)\<close>

text \<open>
  The three enums of the model file, constructor for constructor.
\<close>

datatype SipTrunkStatus = ACTIVE | INACTIVE | SUSPENDED | MAINTENANCE | ERROR

datatype SipTrunkProvider = TWILIO | TELNYX | BANDWIDTH | VONAGE | CUSTOM

datatype CallDirection = INBOUND | OUTBOUND | BIDIRECTIONAL

text \<open>
  UUID keys are natural numbers. A Python \<open>datetime\<close> is either naive (no time zone: the
  wall-clock microseconds) or aware (the instant in microseconds); the schemas accept both,
  \<open>datetime.utcnow()\<close> is naive, and a \<open>DateTime(timezone=True)\<close> column is read back
  aware. Every \<open>datetime\<close> object is truthy, so the source's \<open>if x.ended_at\<close> is the test
  \<open>ended_at x \<noteq> None\<close>. Python's unbounded \<open>int\<close> is \<open>int\<close>. A \<open>Float\<close> column is read as
  a real number: the rounding of float products is not modelled; the one float that the code
  converts to an integer, \<open>timedelta.total_seconds()\<close>, is rounded as a binary64 value
  below.
\<close>

type_synonym uuid = nat

datatype datetime = Naive int | Aware int

text \<open>
  The exceptions of the modelled code. \<open>IntegrityError\<close> stands for a commit that the
  database refuses.
\<close>

datatype error = ValueError string | TypeError | MultipleResultsFound | IntegrityError

text \<open>
  Class \<open>SipTrunk\<close>. The primary key \<open>id\<close> is the field \<open>trunk_id\<close>. The columns that
  hold the SIP credentials, routing tables, codecs and headers are not read by any operation
  below and are left out.
\<close>

record sip_trunk =
  trunk_id :: uuid
  user_id :: uuid
  provider :: SipTrunkProvider
  status :: SipTrunkStatus
  call_direction :: CallDirection
  max_concurrent_calls :: int
  current_active_calls :: int
  last_health_check :: "datetime option"
  health_status :: string
  latency_ms :: "real option"
  packet_loss_percent :: "real option"
  cost_per_minute :: real
  failover_trunk_id :: "uuid option"
  priority :: int
  deleted_at :: "datetime option"

text \<open>Property \<open>is_active\<close>: status ACTIVE and health status equal to the string "healthy".\<close>

definition is_active :: "sip_trunk \<Rightarrow> bool" where
  "is_active self \<longleftrightarrow> status self = ACTIVE \<and> health_status self = ''healthy''"

text \<open>Property \<open>can_handle_call\<close>.\<close>

definition can_handle_call :: "sip_trunk \<Rightarrow> bool" where
  "can_handle_call self \<longleftrightarrow>
     is_active self \<and> current_active_calls self < max_concurrent_calls self"

text \<open>
  Method \<open>increment_active_calls\<close>: the returned pair is the method's result and the
  object after the call.
\<close>

definition increment_active_calls :: "sip_trunk \<Rightarrow> bool \<times> sip_trunk" where
  "increment_active_calls self =
     (if can_handle_call self
      then (True, self\<lparr>current_active_calls := current_active_calls self + 1\<rparr>)
      else (False, self))"

text \<open>Method \<open>decrement_active_calls\<close>: returns nothing, so the model returns the object.\<close>

definition decrement_active_calls :: "sip_trunk \<Rightarrow> sip_trunk" where
  "decrement_active_calls self =
     (if current_active_calls self > 0
      then self\<lparr>current_active_calls := current_active_calls self - 1\<rparr>
      else self)"

text \<open>
  Method \<open>update_health_status\<close>; the clock \<open>datetime.utcnow()\<close> is the argument \<open>now\<close>.
\<close>

definition update_health_status ::
  "sip_trunk \<Rightarrow> string \<Rightarrow> real option \<Rightarrow> real option \<Rightarrow> datetime \<Rightarrow> sip_trunk" where
  "update_health_status self st latency packet_loss now =
     (let s1 = self\<lparr>health_status := st, last_health_check := Some now\<rparr>;
          s2 = (case latency of None \<Rightarrow> s1 | Some l \<Rightarrow> s1\<lparr>latency_ms := Some l\<rparr>)
      in (case packet_loss of None \<Rightarrow> s2 | Some p \<Rightarrow> s2\<lparr>packet_loss_percent := Some p\<rparr>))"

text \<open>
  A finite sequence of calls of the two counter methods on one trunk object.
\<close>

datatype counter_op = Increment | Decrement

fun apply_counter_op :: "sip_trunk \<Rightarrow> counter_op \<Rightarrow> sip_trunk" where
  "apply_counter_op t Increment = snd (increment_active_calls t)"
| "apply_counter_op t Decrement = decrement_active_calls t"

fun run_counter_ops :: "sip_trunk \<Rightarrow> counter_op list \<Rightarrow> sip_trunk" where
  "run_counter_ops t [] = t"
| "run_counter_ops t (x # xs) = run_counter_ops (apply_counter_op t x) xs"

definition example_trunk :: sip_trunk where
  "example_trunk =
     \<lparr>trunk_id = 1, user_id = 7, provider = TWILIO, status = ACTIVE,
      call_direction = BIDIRECTIONAL, max_concurrent_calls = 2, current_active_calls = 1,
      last_health_check = None, health_status = ''healthy'', latency_ms = None,
      packet_loss_percent = None, cost_per_minute = 3 / 100, failover_trunk_id = None,
      priority = 1, deleted_at = None\<rparr>"

text \<open>
  Class \<open>CallLog\<close>. Its primary key \<open>id\<close>, its \<open>user_id\<close> and its \<open>status\<close> are the
  fields \<open>log_id\<close>, \<open>log_user_id\<close> and \<open>log_status\<close>. An attribute that the service
  may leave or set to \<open>None\<close> holds an optional value: \<open>account_id\<close>, which \<open>log_call\<close>
  never assigns, and every attribute that \<open>update_call_log\<close> assigns with \<open>setattr\<close>.
  The columns \<open>metadata\<close> and \<open>created_at\<close> are read by no operation below and are left
  out.
\<close>

record call_log =
  log_id :: uuid
  log_user_id :: uuid
  sip_trunk_id :: uuid
  conversation_id :: "uuid option"
  account_id :: "string option"
  call_id :: string
  direction :: CallDirection
  from_number :: string
  to_number :: string
  started_at :: datetime
  answered_at :: "datetime option"
  ended_at :: "datetime option"
  duration_seconds :: "int option"
  log_status :: "string option"
  hangup_cause :: "string option"
  quality_score :: "real option"
  codec_used :: "string option"
  sip_call_id :: "string option"
  remote_ip :: "string option"
  cost :: "real option"
  credits_used :: "int option"

text \<open>
  \<open>ended_at - answered_at\<close>: the difference in microseconds of two naive or of two aware
  values; Python raises \<open>TypeError\<close> when one is naive and the other aware.
\<close>

fun sub_datetime :: "datetime \<Rightarrow> datetime \<Rightarrow> error + int" where
  "sub_datetime (Naive x) (Naive y) = Inr (x - y)"
| "sub_datetime (Aware x) (Aware y) = Inr (x - y)"
| "sub_datetime (Naive x) (Aware y) = Inl TypeError"
| "sub_datetime (Aware x) (Naive y) = Inl TypeError"

text \<open>
  \<open>timedelta.total_seconds()\<close> is the true division of the microseconds by \<open>10**6\<close>, and
  Python's \<open>int / int\<close> is the quotient rounded to the nearest binary64 value, ties to the
  even significand: with \<open>2 ^ l \<le> n / d < 2 ^ (l + 1)\<close> the quotient is rounded to a
  multiple of \<open>2 ^ (l - 52)\<close>. \<open>true_divide\<close> is that division for \<open>0 \<le> n\<close> and
  \<open>0 < d\<close>. Overflow and subnormal results are left out: the range of \<open>datetime\<close> (years 1
  to 9999) keeps a span between one microsecond and some \<open>3.2 * 10 ^ 11\<close> seconds.
\<close>

definition round_half_even :: "real \<Rightarrow> int" where
  "round_half_even y =
     (let f = \<lfloor>y\<rfloor>
      in if y - of_int f < 1 / 2 then f
         else if 1 / 2 < y - of_int f then f + 1
         else if even f then f else f + 1)"

definition pow2 :: "int \<Rightarrow> real" where
  "pow2 e = (if 0 \<le> e then 2 ^ nat e else 1 / 2 ^ nat (- e))"

definition floor_log2_ratio :: "int \<Rightarrow> int \<Rightarrow> int" where
  "floor_log2_ratio n d =
     (if d \<le> n then bitlen (n div d) - 1
      else - bitlen ((d + n - 1) div n - 1))"

definition true_divide :: "int \<Rightarrow> int \<Rightarrow> real" where
  "true_divide n d =
     (if n = 0 then 0
      else (let e = floor_log2_ratio n d - 52
            in of_int (round_half_even (of_int n / (of_int d * pow2 e))) * pow2 e))"

text \<open>
  \<open>int(delta.total_seconds())\<close> for a span of \<open>delta\<close> microseconds: Python's \<open>int\<close> of a
  float drops the fraction, that is, it rounds toward zero.
\<close>

definition int_total_seconds :: "int \<Rightarrow> int" where
  "int_total_seconds delta =
     (if 0 \<le> delta then \<lfloor>true_divide delta 1000000\<rfloor>
      else - \<lfloor>true_divide (- delta) 1000000\<rfloor>)"

text \<open>
  Method \<open>calculate_duration\<close>: the exception of the subtraction, or the result and the
  object after the call.
\<close>

definition calculate_duration :: "call_log \<Rightarrow> error + int \<times> call_log" where
  "calculate_duration self =
     (case answered_at self of
        None \<Rightarrow> Inr (0, self)
      | Some a \<Rightarrow>
          (case ended_at self of
             None \<Rightarrow> Inr (0, self)
           | Some e \<Rightarrow>
               (case sub_datetime e a of
                  Inl err \<Rightarrow> Inl err
                | Inr delta \<Rightarrow>
                    (let d = int_total_seconds delta
                     in Inr (d, self\<lparr>duration_seconds := Some d\<rparr>)))))"

text \<open>
  Method \<open>calculate_cost\<close>: \<open>if self.duration_seconds\<close> is false for \<open>None\<close> and for 0.
\<close>

definition calculate_cost :: "call_log \<Rightarrow> real \<Rightarrow> real \<times> call_log" where
  "calculate_cost self rate_per_minute =
     (case duration_seconds self of
        None \<Rightarrow> (0, self)
      | Some d \<Rightarrow>
          (if d \<noteq> 0
           then (let minutes = real_of_int d / 60;
                     c = minutes * rate_per_minute
                 in (c, self\<lparr>cost := Some c\<rparr>))
           else (0, self)))"

section \<open>The service (backend/app/services/sip\_trunk\_service.py)\<close>

text \<open>
  The session is a store of two tables, each a list of rows. An exception of the source is
  a value \<open>Inl e\<close>; every service method catches it, rolls the session back and raises it
  again, so a failed call returns the store it was given. At a commit the database refuses
  a call log row whose NOT NULL column holds \<open>None\<close> (\<open>not_null_columns\<close>, for the
  columns that the service can leave or set to \<open>None\<close>); every other reason it has to
  accept or refuse (keys, lengths, ranges, the connection) is an input of the operation,
  \<open>commit_ok\<close>.
\<close>

record database =
  trunks :: "sip_trunk list"
  call_logs :: "call_log list"

definition not_null_columns :: "call_log \<Rightarrow> bool" where
  "not_null_columns c \<longleftrightarrow>
     account_id c \<noteq> None \<and> log_status c \<noteq> None \<and> cost c \<noteq> None \<and> credits_used c \<noteq> None"

text \<open>
  SQLAlchemy's \<open>Result.scalar_one_or_none()\<close>: no row gives \<open>None\<close>, one row gives that
  row, more than one row raises \<open>MultipleResultsFound\<close>.
\<close>

fun scalar_one_or_none :: "'a list \<Rightarrow> error + 'a option" where
  "scalar_one_or_none [] = Inr None"
| "scalar_one_or_none [x] = Inr (Some x)"
| "scalar_one_or_none (x # y # zs) = Inl MultipleResultsFound"

text \<open>The private helpers \<open>_get_trunk\<close> and \<open>_get_trunk_by_id\<close>.\<close>

definition get_trunk :: "database \<Rightarrow> uuid \<Rightarrow> uuid \<Rightarrow> error + sip_trunk option" where
  "get_trunk db uid tid =
     scalar_one_or_none
       (filter (\<lambda>t. trunk_id t = tid \<and> user_id t = uid \<and> deleted_at t = None) (trunks db))"

definition get_trunk_by_id :: "database \<Rightarrow> uuid \<Rightarrow> error + sip_trunk option" where
  "get_trunk_by_id db tid = scalar_one_or_none (filter (\<lambda>t. trunk_id t = tid) (trunks db))"

text \<open>
  A commit writes a changed object back to the row with its primary key.
\<close>

definition put_trunk :: "sip_trunk \<Rightarrow> sip_trunk list \<Rightarrow> sip_trunk list" where
  "put_trunk t rows = map (\<lambda>r. if trunk_id r = trunk_id t then t else r) rows"

definition put_call_log :: "call_log \<Rightarrow> call_log list \<Rightarrow> call_log list" where
  "put_call_log c rows = map (\<lambda>r. if log_id r = log_id c then c else r) rows"

text \<open>
  \<open>delete_sip_trunk\<close>. The provider clean-up that follows the commit swallows its own
  exceptions and touches no row.
\<close>

definition delete_sip_trunk ::
  "database \<Rightarrow> uuid \<Rightarrow> uuid \<Rightarrow> datetime \<Rightarrow> bool \<Rightarrow> (error + bool) \<times> database" where
  "delete_sip_trunk db uid tid now commit_ok =
     (case get_trunk db uid tid of
        Inl e \<Rightarrow> (Inl e, db)
      | Inr None \<Rightarrow> (Inr False, db)
      | Inr (Some trunk) \<Rightarrow>
          (if current_active_calls trunk > 0
           then (Inl (ValueError ''Cannot delete trunk with active calls''), db)
           else if commit_ok
           then (Inr True,
                 db\<lparr>trunks := put_trunk (trunk\<lparr>deleted_at := Some now, status := INACTIVE\<rparr>)
                                 (trunks db)\<rparr>)
           else (Inl IntegrityError, db)))"

text \<open>
  \<open>get_available_trunk_for_call\<close>: the WHERE clause, the ORDER BY (priority, then
  current\_active\_calls; rows equal in both keep their table order here, SQL leaves their
  order open), and \<open>scalar_one_or_none\<close> on the rows.
\<close>

definition available_trunk_filter :: "uuid \<Rightarrow> CallDirection \<Rightarrow> sip_trunk \<Rightarrow> bool" where
  "available_trunk_filter uid dir t \<longleftrightarrow>
     user_id t = uid \<and> status t = ACTIVE \<and> deleted_at t = None
     \<and> (call_direction t = BIDIRECTIONAL \<or> call_direction t = dir)
     \<and> current_active_calls t < max_concurrent_calls t"

definition get_available_trunk_for_call ::
  "database \<Rightarrow> uuid \<Rightarrow> CallDirection \<Rightarrow> error + sip_trunk option" where
  "get_available_trunk_for_call db uid dir =
     scalar_one_or_none
       (sort_key (\<lambda>t. (priority t, current_active_calls t))
          (filter (available_trunk_filter uid dir) (trunks db)))"

text \<open>
  \<open>_perform_health_check\<close>. The service registers a provider client for "twilio" and
  "telnyx" only. The client's \<open>health_check\<close> either returns a dictionary, of which the
  keys "status", "latency\_ms" and "packet\_loss\_percent" are read with \<open>get\<close>, or raises.
  The model returns the trunk after the check.
\<close>

definition providers_get :: "SipTrunkProvider \<Rightarrow> bool" where
  "providers_get p \<longleftrightarrow> p = TWILIO \<or> p = TELNYX"

record health_result =
  hr_status :: "string option"
  hr_latency_ms :: "real option"
  hr_packet_loss_percent :: "real option"

datatype probe = Returned health_result | Raised

definition perform_health_check :: "sip_trunk \<Rightarrow> probe \<Rightarrow> datetime \<Rightarrow> sip_trunk" where
  "perform_health_check trunk p now =
     (if providers_get (provider trunk)
      then (case p of
              Returned r \<Rightarrow>
                update_health_status trunk
                  (case hr_status r of None \<Rightarrow> ''unknown'' | Some s \<Rightarrow> s)
                  (hr_latency_ms r) (hr_packet_loss_percent r) now
            | Raised \<Rightarrow> update_health_status trunk ''error'' None None now)
      else update_health_status trunk ''unknown'' None None now)"

text \<open>Successive health checks of one trunk, each with its probe outcome and its clock.\<close>

fun run_health_checks :: "sip_trunk \<Rightarrow> (probe \<times> datetime) list \<Rightarrow> sip_trunk" where
  "run_health_checks t [] = t"
| "run_health_checks t ((p, now) # ps) = run_health_checks (perform_health_check t p now) ps"

text \<open>
  Schema \<open>CallLogCreate\<close>, the argument of \<open>log_call\<close> (its fields carry the prefix
  \<open>new_\<close>; the \<open>metadata\<close> dictionary is left out with the column).
\<close>

record CallLogCreate =
  new_call_id :: string
  new_sip_trunk_id :: uuid
  new_conversation_id :: "uuid option"
  new_direction :: CallDirection
  new_from_number :: string
  new_to_number :: string
  new_started_at :: datetime
  new_status :: string
  new_sip_call_id :: "string option"
  new_remote_ip :: "string option"

text \<open>
  \<open>log_call\<close>. The object is built from the request: the constructor call names neither
  \<open>account_id\<close> nor \<open>cost\<close> nor \<open>credits_used\<close>. \<open>increment_active_calls\<close> is called on
  the trunk and its result is dropped, then the session commits. \<open>fresh_id\<close> is the key
  that the column default \<open>uuid.uuid4\<close> draws. The inserted row carries the column
  defaults of \<open>cost\<close> and \<open>credits_used\<close>; \<open>account_id\<close> has no default. The response
  object is a field by field copy of the refreshed row, so the model returns the row.
\<close>

definition log_call ::
  "database \<Rightarrow> CallLogCreate \<Rightarrow> uuid \<Rightarrow> bool \<Rightarrow> (error + call_log) \<times> database" where
  "log_call db call_data fresh_id commit_ok =
     (case get_trunk_by_id db (new_sip_trunk_id call_data) of
        Inl e \<Rightarrow> (Inl e, db)
      | Inr None \<Rightarrow> (Inl (ValueError ''SIP trunk not found''), db)
      | Inr (Some trunk) \<Rightarrow>
          (let call_log =
                 \<lparr>log_id = fresh_id, log_user_id = user_id trunk,
                  sip_trunk_id = new_sip_trunk_id call_data,
                  conversation_id = new_conversation_id call_data, account_id = None,
                  call_id = new_call_id call_data, direction = new_direction call_data,
                  from_number = new_from_number call_data, to_number = new_to_number call_data,
                  started_at = new_started_at call_data, answered_at = None, ended_at = None,
                  duration_seconds = None, log_status = Some (new_status call_data),
                  hangup_cause = None, quality_score = None, codec_used = None,
                  sip_call_id = new_sip_call_id call_data, remote_ip = new_remote_ip call_data,
                  cost = None, credits_used = None\<rparr>;
               trunk' = snd (increment_active_calls trunk);
               row = call_log\<lparr>cost := Some 0, credits_used := Some 0\<rparr>
           in if commit_ok \<and> not_null_columns row
              then (Inr row,
                    \<lparr>trunks = put_trunk trunk' (trunks db),
                     call_logs = call_logs db @ [row]\<rparr>)
              else (Inl IntegrityError, db)))"

text \<open>
  Schema \<open>CallLogUpdate\<close> (fields with the prefix \<open>upd_\<close>). Each field is either unset
  (\<open>None\<close>: \<open>dict(exclude_unset=True)\<close> drops it) or set to an optional value
  (\<open>Some v\<close>). Reading the attribute of the schema object gives \<open>None\<close> for an unset
  field, which is \<open>field_value\<close>.
\<close>

record CallLogUpdate =
  upd_answered_at :: "datetime option option"
  upd_ended_at :: "datetime option option"
  upd_status :: "string option option"
  upd_hangup_cause :: "string option option"
  upd_quality_score :: "real option option"
  upd_codec_used :: "string option option"
  upd_duration_seconds :: "int option option"
  upd_cost :: "real option option"
  upd_credits_used :: "int option option"

definition field_value :: "'a option option \<Rightarrow> 'a option" where
  "field_value f = (case f of None \<Rightarrow> None | Some v \<Rightarrow> v)"

definition set_field :: "'a option option \<Rightarrow> 'a option \<Rightarrow> 'a option" where
  "set_field f old = (case f of None \<Rightarrow> old | Some v \<Rightarrow> v)"

text \<open>The \<open>setattr\<close> loop over the fields that the request sets.\<close>

definition apply_update :: "call_log \<Rightarrow> CallLogUpdate \<Rightarrow> call_log" where
  "apply_update c u =
     c\<lparr>answered_at := set_field (upd_answered_at u) (answered_at c),
       ended_at := set_field (upd_ended_at u) (ended_at c),
       log_status := set_field (upd_status u) (log_status c),
       hangup_cause := set_field (upd_hangup_cause u) (hangup_cause c),
       quality_score := set_field (upd_quality_score u) (quality_score c),
       codec_used := set_field (upd_codec_used u) (codec_used c),
       duration_seconds := set_field (upd_duration_seconds u) (duration_seconds c),
       cost := set_field (upd_cost u) (cost c),
       credits_used := set_field (upd_credits_used u) (credits_used c)\<rparr>"

text \<open>
  The block under the source comment "If call ended, decrement active calls on trunk". It
  runs after the \<open>setattr\<close> loop, so \<open>call_log\<close> is the object with the request's
  fields already stored. The result is the trunk table after the block.
\<close>

definition release_on_end ::
  "database \<Rightarrow> CallLogUpdate \<Rightarrow> call_log \<Rightarrow> error + sip_trunk list" where
  "release_on_end db update_data call_log =
     (if field_value (upd_ended_at update_data) \<noteq> None \<and> ended_at call_log = None
      then (case get_trunk_by_id db (sip_trunk_id call_log) of
              Inl e \<Rightarrow> Inl e
            | Inr None \<Rightarrow> Inr (trunks db)
            | Inr (Some trunk) \<Rightarrow> Inr (put_trunk (decrement_active_calls trunk) (trunks db)))
      else Inr (trunks db))"

text \<open>
  The block under "Calculate duration and cost if call ended": the exception of
  \<open>calculate_duration\<close>, or the call log after the block.
\<close>

definition bill_on_end :: "database \<Rightarrow> call_log \<Rightarrow> error + call_log" where
  "bill_on_end db call_log =
     (if ended_at call_log \<noteq> None \<and> answered_at call_log \<noteq> None
      then (case calculate_duration call_log of
              Inl e \<Rightarrow> Inl e
            | Inr (d, c1) \<Rightarrow>
                (case get_trunk_by_id db (sip_trunk_id c1) of
                   Inl e \<Rightarrow> Inl e
                 | Inr None \<Rightarrow> Inr c1
                 | Inr (Some trunk) \<Rightarrow> Inr (snd (calculate_cost c1 (cost_per_minute trunk)))))
      else Inr call_log)"

text \<open>\<open>update_call_log\<close>.\<close>

definition update_call_log ::
  "database \<Rightarrow> string \<Rightarrow> CallLogUpdate \<Rightarrow> bool \<Rightarrow> (error + call_log option) \<times> database" where
  "update_call_log db cid update_data commit_ok =
     (case scalar_one_or_none (filter (\<lambda>c. call_id c = cid) (call_logs db)) of
        Inl e \<Rightarrow> (Inl e, db)
      | Inr None \<Rightarrow> (Inr None, db)
      | Inr (Some found) \<Rightarrow>
          (let call_log = apply_update found update_data
           in case release_on_end db update_data call_log of
                Inl e \<Rightarrow> (Inl e, db)
              | Inr rows \<Rightarrow>
                  (case bill_on_end (db\<lparr>trunks := rows\<rparr>) call_log of
                     Inl e \<Rightarrow> (Inl e, db)
                   | Inr call_log' \<Rightarrow>
                       (if commit_ok \<and> not_null_columns call_log'
                        then (Inr (Some call_log'),
                              \<lparr>trunks = rows,
                               call_logs = put_call_log call_log' (call_logs db)\<rparr>)
                        else (Inl IntegrityError, db)))))"


section \<open>Example stores\<close>

text \<open>
  One user (key 7) and the trunks of the scenarios below: three selectable trunks with
  different priority and load; two full trunks whose failover links point at each other;
  and a trunk with room whose health status is "unhealthy" and whose failover link points
  at the second of them.
\<close>

definition selection_trunk :: sip_trunk where
  "selection_trunk =
     \<lparr>trunk_id = 1, user_id = 7, provider = TWILIO, status = ACTIVE,
      call_direction = BIDIRECTIONAL, max_concurrent_calls = 5, current_active_calls = 3,
      last_health_check = None, health_status = ''healthy'', latency_ms = None,
      packet_loss_percent = None, cost_per_minute = 3 / 100, failover_trunk_id = None,
      priority = 1, deleted_at = None\<rparr>"

definition three_trunks :: database where
  "three_trunks =
     \<lparr>trunks = [selection_trunk,
                selection_trunk\<lparr>trunk_id := 2, current_active_calls := 1\<rparr>,
                selection_trunk\<lparr>trunk_id := 3, current_active_calls := 0, priority := 2\<rparr>],
      call_logs = []\<rparr>"

definition cycle_a :: sip_trunk where
  "cycle_a = selection_trunk\<lparr>trunk_id := 1, current_active_calls := 5, failover_trunk_id := Some 2\<rparr>"

definition cycle_b :: sip_trunk where
  "cycle_b = selection_trunk\<lparr>trunk_id := 2, current_active_calls := 5, failover_trunk_id := Some 1\<rparr>"

definition unhealthy_a :: sip_trunk where
  "unhealthy_a =
     selection_trunk\<lparr>trunk_id := 1, current_active_calls := 0, health_status := ''unhealthy'',
                      failover_trunk_id := Some 2\<rparr>"

text \<open>
  A call on trunk 1 that was answered and has not ended, a request that sets no field, and a
  request to log a second call on trunk 1.
\<close>

definition example_call :: call_log where
  "example_call =
     \<lparr>log_id = 11, log_user_id = 7, sip_trunk_id = 1, conversation_id = None,
      account_id = Some ''ACC_0123456789AB'', call_id = ''call-1'', direction = OUTBOUND,
      from_number = ''+15550100'', to_number = ''+15550101'', started_at = Aware 0,
      answered_at = Some (Aware 1000000), ended_at = None,
      duration_seconds = None, log_status = Some ''answered'', hangup_cause = None,
      quality_score = None, codec_used = None, sip_call_id = None, remote_ip = None,
      cost = Some 0, credits_used = Some 0\<rparr>"

definition no_update :: CallLogUpdate where
  "no_update =
     \<lparr>upd_answered_at = None, upd_ended_at = None, upd_status = None, upd_hangup_cause = None,
      upd_quality_score = None, upd_codec_used = None, upd_duration_seconds = None,
      upd_cost = None, upd_credits_used = None\<rparr>"

definition example_request :: CallLogCreate where
  "example_request =
     \<lparr>new_call_id = ''call-2'', new_sip_trunk_id = 1, new_conversation_id = None,
      new_direction = INBOUND, new_from_number = ''+15550102'', new_to_number = ''+15550100'',
      new_started_at = Aware 500, new_status = ''ringing'', new_sip_call_id = None,
      new_remote_ip = None\<rparr>"

section \<open>Admission and release on one trunk\<close>

lemma apply_counter_op_bounds:
  assumes "0 \<le> current_active_calls t" "current_active_calls t \<le> max_concurrent_calls t"
  shows "0 \<le> current_active_calls (apply_counter_op t x)
         \<and> current_active_calls (apply_counter_op t x) \<le> max_concurrent_calls (apply_counter_op t x)
         \<and> max_concurrent_calls (apply_counter_op t x) = max_concurrent_calls t"
  using assms
  by (cases x) (auto simp: increment_active_calls_def decrement_active_calls_def can_handle_call_def)

text \<open>
  C2 as the specification states it fails on a trunk whose health status is "unknown":
  the trunk is ACTIVE and has room, yet \<open>increment_active_calls\<close> answers False and
  changes nothing.
\<close>

theorem increment_unknown_health_counterexample:
  "status (example_trunk\<lparr>health_status := ''unknown''\<rparr>) = ACTIVE
   \<and> health_status (example_trunk\<lparr>health_status := ''unknown''\<rparr>) = ''unknown''
   \<and> current_active_calls (example_trunk\<lparr>health_status := ''unknown''\<rparr>)
       < max_concurrent_calls (example_trunk\<lparr>health_status := ''unknown''\<rparr>)
   \<and> increment_active_calls (example_trunk\<lparr>health_status := ''unknown''\<rparr>)
       = (False, example_trunk\<lparr>health_status := ''unknown''\<rparr>)"
  by (simp add: example_trunk_def increment_active_calls_def can_handle_call_def is_active_def)

text \<open>
  C2, amended: \<open>increment_active_calls\<close> returns True and raises \<open>current_active_calls\<close> by
  exactly one (no other field changes) if and only if the trunk's status is ACTIVE, its
  health status is "healthy" and \<open>current_active_calls < max_concurrent_calls\<close>; in every
  other case it returns False and leaves the trunk unchanged.
\<close>

theorem increment_active_calls_admits_iff:
  "(fst (increment_active_calls t) \<longleftrightarrow>
      status t = ACTIVE \<and> health_status t = ''healthy''
      \<and> current_active_calls t < max_concurrent_calls t)
   \<and> (fst (increment_active_calls t) \<longrightarrow>
        snd (increment_active_calls t)
          = t\<lparr>current_active_calls := current_active_calls t + 1\<rparr>)
   \<and> (\<not> fst (increment_active_calls t) \<longrightarrow> snd (increment_active_calls t) = t)"
  by (simp add: increment_active_calls_def can_handle_call_def is_active_def)

theorem increment_active_calls_admits_iff_witness:
  "fst (increment_active_calls example_trunk)
   \<and> current_active_calls (snd (increment_active_calls example_trunk)) = 2
   \<and> \<not> fst (increment_active_calls (example_trunk\<lparr>status := SUSPENDED\<rparr>))
   \<and> snd (increment_active_calls (example_trunk\<lparr>status := SUSPENDED\<rparr>))
       = example_trunk\<lparr>status := SUSPENDED\<rparr>"
  using increment_active_calls_admits_iff [of example_trunk]
    increment_active_calls_admits_iff [of "example_trunk\<lparr>status := SUSPENDED\<rparr>"]
  by (simp add: example_trunk_def)

text \<open>
  C3: from a trunk with \<open>0 \<le> current_active_calls \<le> max_concurrent_calls\<close>, every finite
  sequence of \<open>increment_active_calls\<close> and \<open>decrement_active_calls\<close> calls ends in a trunk
  with the same bounds (and the same maximum). Every prefix of a sequence is a sequence, so
  the bounds hold after each single call as well.
\<close>

theorem counter_ops_keep_bounds:
  assumes "0 \<le> current_active_calls t" "current_active_calls t \<le> max_concurrent_calls t"
  shows "0 \<le> current_active_calls (run_counter_ops t ops)
         \<and> current_active_calls (run_counter_ops t ops) \<le> max_concurrent_calls t
         \<and> max_concurrent_calls (run_counter_ops t ops) = max_concurrent_calls t"
  using assms
proof (induction ops arbitrary: t)
  case Nil
  then show ?case by simp
next
  case (Cons x xs)
  from apply_counter_op_bounds [OF Cons.prems, of x]
  have step: "0 \<le> current_active_calls (apply_counter_op t x)"
    "current_active_calls (apply_counter_op t x) \<le> max_concurrent_calls (apply_counter_op t x)"
    "max_concurrent_calls (apply_counter_op t x) = max_concurrent_calls t"
    by simp_all
  from Cons.IH [OF step(1) step(2)] step(3) show ?case by simp
qed

theorem counter_ops_keep_bounds_witness:
  "0 \<le> current_active_calls example_trunk
   \<and> current_active_calls example_trunk \<le> max_concurrent_calls example_trunk
   \<and> current_active_calls
        (run_counter_ops example_trunk [Increment, Increment, Decrement, Decrement, Decrement]) = 0
   \<and> current_active_calls (run_counter_ops example_trunk [Increment, Increment, Increment]) = 2"
proof -
  have a: "0 \<le> current_active_calls example_trunk"
    and b: "current_active_calls example_trunk \<le> max_concurrent_calls example_trunk"
    by (simp_all add: example_trunk_def)
  have c: "current_active_calls
        (run_counter_ops example_trunk [Increment, Increment, Decrement, Decrement, Decrement]) = 0"
    by (simp add: example_trunk_def increment_active_calls_def decrement_active_calls_def
        can_handle_call_def is_active_def)
  have d: "current_active_calls (run_counter_ops example_trunk [Increment, Increment, Increment]) = 2"
    by (simp add: example_trunk_def increment_active_calls_def decrement_active_calls_def
        can_handle_call_def is_active_def)
  from counter_ops_keep_bounds [OF a b] a b c d show ?thesis by simp
qed

section \<open>Queries\<close>

lemma scalar_one_or_none_sort_key:
  "scalar_one_or_none (sort_key k xs) = scalar_one_or_none xs"
proof (cases xs rule: scalar_one_or_none.cases)
  case (3 x y zs)
  then have "length (sort_key k xs) = Suc (Suc (length zs))" by simp
  then obtain a b cs where "sort_key k xs = a # b # cs"
    by (metis length_Suc_conv)
  with 3 show ?thesis by simp
qed simp_all

lemma scalar_one_or_none_map:
  "scalar_one_or_none (map g xs) = map_sum id (map_option g) (scalar_one_or_none xs)"
  by (cases xs rule: scalar_one_or_none.cases) simp_all

lemma get_available_unsorted:
  "get_available_trunk_for_call db uid dir =
     scalar_one_or_none (filter (available_trunk_filter uid dir) (trunks db))"
  by (simp add: get_available_trunk_for_call_def scalar_one_or_none_sort_key)

lemma filter_key_unique:
  "distinct (map k xs) \<Longrightarrow> x \<in> set xs \<Longrightarrow> filter (\<lambda>y. k y = k x) xs = [x]"
proof (induction xs)
  case Nil
  then show ?case by simp
next
  case (Cons a xs)
  show ?case
  proof (cases "a = x")
    case True
    with Cons.prems have "\<forall>y\<in>set xs. k y \<noteq> k x" by (auto simp: image_iff)
    then have "filter (\<lambda>y. k y = k x) xs = []" by (simp add: filter_empty_conv)
    with True show ?thesis by simp
  next
    case False
    with Cons.prems have "x \<in> set xs" "k a \<noteq> k x" by (auto simp: image_iff)
    with Cons show ?thesis by simp
  qed
qed

lemma get_trunk_by_id_found:
  "distinct (map trunk_id (trunks db)) \<Longrightarrow> t \<in> set (trunks db) \<Longrightarrow>
   get_trunk_by_id db (trunk_id t) = Inr (Some t)"
  by (simp add: get_trunk_by_id_def filter_key_unique)

lemma get_trunk_found:
  assumes "distinct (map trunk_id (trunks db))" "t \<in> set (trunks db)"
    "user_id t = uid" "deleted_at t = None"
  shows "get_trunk db uid (trunk_id t) = Inr (Some t)"
proof -
  have "filter (\<lambda>r. trunk_id r = trunk_id t \<and> user_id r = uid \<and> deleted_at r = None) (trunks db)
        = filter (\<lambda>r. user_id r = uid \<and> deleted_at r = None)
            (filter (\<lambda>r. trunk_id r = trunk_id t) (trunks db))"
    by (simp add: conj_commute cong: conj_cong)
  also have "\<dots> = [t]"
    using assms by (simp add: filter_key_unique)
  finally show ?thesis by (simp add: get_trunk_def)
qed

lemma put_trunk_same:
  assumes "distinct (map trunk_id rows)" "t \<in> set rows"
  shows "put_trunk t rows = rows"
proof -
  have "inj_on trunk_id (set rows)" using assms(1) by (simp add: distinct_map)
  then have "\<forall>r\<in>set rows. (if trunk_id r = trunk_id t then t else r) = r"
    using assms(2) by (auto dest: inj_onD)
  then show ?thesis unfolding put_trunk_def by (simp add: map_idI)
qed

section \<open>Trunk selection\<close>

text \<open>
  C5: the user owns exactly the three trunks of the specification's example (priority 1 with
  load 3/5, priority 1 with load 1/5, priority 2 with load 0/5, all ACTIVE, bidirectional,
  not deleted). All three pass the WHERE clause, so the query yields three rows and
  \<open>scalar_one_or_none\<close> raises \<open>MultipleResultsFound\<close>: no trunk is returned.
\<close>

theorem selection_raises_on_three_candidates:
  "get_available_trunk_for_call three_trunks 7 BIDIRECTIONAL = Inl MultipleResultsFound"
  by (simp add: get_available_trunk_for_call_def three_trunks_def selection_trunk_def
      available_trunk_filter_def)

text \<open>
  C7 as stated fails: trunks 1 and 2 name each other as failover target and neither admits
  (trunk 1 is not healthy, so \<open>increment_active_calls\<close> refuses it; trunk 2 is full), yet
  the call returns trunk 1 and not \<open>None\<close>. The selection is one query that reads neither
  the health status nor a failover link.
\<close>

theorem failover_cycle_counterexample:
  "failover_trunk_id unhealthy_a = Some (trunk_id cycle_b)
   \<and> failover_trunk_id cycle_b = Some (trunk_id unhealthy_a)
   \<and> health_status unhealthy_a = ''unhealthy''
   \<and> \<not> fst (increment_active_calls unhealthy_a)
   \<and> \<not> fst (increment_active_calls cycle_b)
   \<and> get_available_trunk_for_call \<lparr>trunks = [unhealthy_a, cycle_b], call_logs = []\<rparr>
        7 BIDIRECTIONAL = Inr (Some unhealthy_a)"
  by (simp add: get_available_trunk_for_call_def available_trunk_filter_def
      increment_active_calls_def can_handle_call_def is_active_def
      unhealthy_a_def cycle_b_def selection_trunk_def)

lemma available_trunk_filter_relink:
  "available_trunk_filter uid dir (t\<lparr>failover_trunk_id := x\<rparr>) = available_trunk_filter uid dir t"
  by (simp add: available_trunk_filter_def)

lemma scalar_one_or_none_None:
  "scalar_one_or_none xs = Inr None \<longleftrightarrow> xs = []"
  by (cases xs rule: scalar_one_or_none.cases) simp_all

text \<open>
  C7, amended: \<open>get_available_trunk_for_call\<close> never reads \<open>failover_trunk_id\<close> and keeps
  no visited set or depth bound. It is a single query, defined on every store, so it returns
  whatever the links are, cyclic or not: rewriting every link by any function \<open>f\<close> changes
  nothing in the outcome but the link field of the returned row. It returns \<open>None\<close> exactly
  when no trunk passes the WHERE clause (owner, ACTIVE, not deleted, direction,
  \<open>current_active_calls < max_concurrent_calls\<close>; the health status is not part of it).
\<close>

theorem selection_ignores_failover_links:
  "get_available_trunk_for_call
     (db\<lparr>trunks := map (\<lambda>t. t\<lparr>failover_trunk_id := f t\<rparr>) (trunks db)\<rparr>) uid dir
   = map_sum id (map_option (\<lambda>t. t\<lparr>failover_trunk_id := f t\<rparr>))
       (get_available_trunk_for_call db uid dir)
   \<and> (get_available_trunk_for_call db uid dir = Inr None \<longleftrightarrow>
        (\<forall>t\<in>set (trunks db). \<not> available_trunk_filter uid dir t))"
proof
  have "filter (available_trunk_filter uid dir) (map (\<lambda>t. t\<lparr>failover_trunk_id := f t\<rparr>) (trunks db))
        = map (\<lambda>t. t\<lparr>failover_trunk_id := f t\<rparr>) (filter (available_trunk_filter uid dir) (trunks db))"
    by (simp add: filter_map comp_def available_trunk_filter_relink)
  then show "get_available_trunk_for_call
     (db\<lparr>trunks := map (\<lambda>t. t\<lparr>failover_trunk_id := f t\<rparr>) (trunks db)\<rparr>) uid dir
   = map_sum id (map_option (\<lambda>t. t\<lparr>failover_trunk_id := f t\<rparr>))
       (get_available_trunk_for_call db uid dir)"
    by (simp add: get_available_unsorted scalar_one_or_none_map)
next
  show "get_available_trunk_for_call db uid dir = Inr None \<longleftrightarrow>
        (\<forall>t\<in>set (trunks db). \<not> available_trunk_filter uid dir t)"
    by (simp add: get_available_unsorted scalar_one_or_none_None filter_empty_conv)
qed

theorem selection_ignores_failover_links_witness:
  "\<not> available_trunk_filter 7 BIDIRECTIONAL cycle_a
   \<and> \<not> available_trunk_filter 7 BIDIRECTIONAL cycle_b
   \<and> failover_trunk_id cycle_a = Some (trunk_id cycle_b)
   \<and> failover_trunk_id cycle_b = Some (trunk_id cycle_a)
   \<and> get_available_trunk_for_call \<lparr>trunks = [cycle_a, cycle_b], call_logs = []\<rparr> 7 BIDIRECTIONAL
       = Inr None
   \<and> get_available_trunk_for_call
        \<lparr>trunks = [cycle_a\<lparr>failover_trunk_id := None\<rparr>, cycle_b\<lparr>failover_trunk_id := None\<rparr>],
         call_logs = []\<rparr> 7 BIDIRECTIONAL = Inr None"
proof -
  have h: "\<forall>t\<in>set (trunks \<lparr>trunks = [cycle_a, cycle_b], call_logs = []\<rparr>).
       \<not> available_trunk_filter 7 BIDIRECTIONAL t"
    by (simp add: available_trunk_filter_def cycle_a_def cycle_b_def selection_trunk_def)
  have l: "failover_trunk_id cycle_a = Some (trunk_id cycle_b)"
    "failover_trunk_id cycle_b = Some (trunk_id cycle_a)"
    by (simp_all add: cycle_a_def cycle_b_def)
  from selection_ignores_failover_links
         [where db = "\<lparr>trunks = [cycle_a, cycle_b], call_logs = []\<rparr>" and f = "\<lambda>t. None"
            and uid = 7 and dir = BIDIRECTIONAL] h l
  show ?thesis by simp
qed

section \<open>Health checks\<close>

lemma perform_health_check_status:
  "status (perform_health_check t p now) = status t"
  by (simp add: perform_health_check_def update_health_status_def Let_def
      split: probe.splits option.splits)

lemma perform_health_check_provider:
  "provider (perform_health_check t p now) = provider t"
  by (simp add: perform_health_check_def update_health_status_def Let_def
      split: probe.splits option.splits)

lemma perform_health_check_filter:
  "available_trunk_filter uid dir (perform_health_check t p now) = available_trunk_filter uid dir t"
  by (simp add: perform_health_check_def update_health_status_def Let_def
      available_trunk_filter_def split: probe.splits option.splits)

lemma run_health_checks_append:
  "run_health_checks t (ps @ qs) = run_health_checks (run_health_checks t ps) qs"
  by (induction t ps rule: run_health_checks.induct) simp_all

lemma run_health_checks_keeps:
  "status (run_health_checks t ps) = status t
   \<and> provider (run_health_checks t ps) = provider t
   \<and> available_trunk_filter uid dir (run_health_checks t ps) = available_trunk_filter uid dir t"
  by (induction t ps rule: run_health_checks.induct)
    (simp_all add: perform_health_check_status perform_health_check_provider
      perform_health_check_filter)

text \<open>
  C6 as stated fails: after three probes that raise, the ACTIVE Twilio trunk is still ACTIVE
  (only its health status is "error") and the selection query still returns it; and a
  trunk whose status is ERROR stays in ERROR after a probe that reports "healthy".
\<close>

theorem three_failed_probes_counterexample:
  "status example_trunk = ACTIVE
   \<and> status (run_health_checks example_trunk [(Raised, Naive 10), (Raised, Naive 20), (Raised, Naive 30)]) \<noteq> ERROR
   \<and> get_available_trunk_for_call
        \<lparr>trunks = [run_health_checks example_trunk [(Raised, Naive 10), (Raised, Naive 20), (Raised, Naive 30)]],
         call_logs = []\<rparr> 7 BIDIRECTIONAL
       = Inr (Some (run_health_checks example_trunk [(Raised, Naive 10), (Raised, Naive 20), (Raised, Naive 30)]))
   \<and> status (perform_health_check (example_trunk\<lparr>status := ERROR\<rparr>)
        (Returned \<lparr>hr_status = Some ''healthy'', hr_latency_ms = Some 12,
                   hr_packet_loss_percent = None\<rparr>) (Naive 40)) \<noteq> ACTIVE"
  by (simp add: example_trunk_def perform_health_check_def update_health_status_def
      providers_get_def get_available_trunk_for_call_def available_trunk_filter_def)

text \<open>
  C6, amended: a health check never changes \<open>trunk.status\<close>, and never changes whether the
  trunk passes the WHERE clause of the selection query (which does not read the health
  status), however many probes fail or succeed. For a trunk with a registered provider
  client, a probe that raises sets \<open>health_status\<close> to "error" at once (no count of
  consecutive failures is kept) and a probe that returns sets \<open>health_status\<close> to the
  status it reports ("healthy" on success, "unknown" if it reports none).
\<close>

theorem health_checks_leave_status:
  "status (run_health_checks t ps) = status t
   \<and> available_trunk_filter uid dir (run_health_checks t ps) = available_trunk_filter uid dir t
   \<and> (providers_get (provider t) \<longrightarrow>
        health_status (run_health_checks t (ps @ [(Raised, now)])) = ''error'')
   \<and> (providers_get (provider t) \<longrightarrow>
        health_status (run_health_checks t (ps @ [(Returned r, now)]))
          = (case hr_status r of None \<Rightarrow> ''unknown'' | Some s \<Rightarrow> s))"
proof -
  have "provider (run_health_checks t ps) = provider t"
    using run_health_checks_keeps [of t ps] by simp
  then have "providers_get (provider t) \<Longrightarrow>
        health_status (run_health_checks t (ps @ [(p, now)]))
          = (case p of Raised \<Rightarrow> ''error''
             | Returned r \<Rightarrow> (case hr_status r of None \<Rightarrow> ''unknown'' | Some s \<Rightarrow> s))" for p
    by (simp add: run_health_checks_append perform_health_check_def update_health_status_def
        Let_def split: probe.splits option.splits)
  from this [of Raised] this [of "Returned r"] run_health_checks_keeps [of t ps uid dir]
  show ?thesis by simp
qed

theorem health_checks_leave_status_witness:
  "providers_get (provider example_trunk)
   \<and> status (run_health_checks example_trunk [(Raised, Naive 10), (Raised, Naive 20), (Raised, Naive 30)]) = ACTIVE
   \<and> health_status (run_health_checks example_trunk [(Raised, Naive 10), (Raised, Naive 20), (Raised, Naive 30)])
       = ''error''
   \<and> health_status (run_health_checks example_trunk
        [(Raised, Naive 10), (Raised, Naive 20), (Raised, Naive 30),
         (Returned \<lparr>hr_status = Some ''healthy'', hr_latency_ms = Some 12,
                    hr_packet_loss_percent = None\<rparr>, Naive 40)]) = ''healthy''"
proof -
  have h: "providers_get (provider example_trunk)"
    by (simp add: providers_get_def example_trunk_def)
  have s: "status example_trunk = ACTIVE" by (simp add: example_trunk_def)
  from health_checks_leave_status
         [where t = example_trunk and ps = "[(Raised, Naive 10), (Raised, Naive 20)]" and now = "Naive 30"]
       health_checks_leave_status
         [where t = example_trunk and ps = "[(Raised, Naive 10), (Raised, Naive 20), (Raised, Naive 30)]"
            and now = "Naive 40"
            and r = "\<lparr>hr_status = Some ''healthy'', hr_latency_ms = Some 12,
                      hr_packet_loss_percent = None\<rparr>"]
       h s
  show ?thesis by simp
qed

section \<open>Deleting a trunk\<close>

text \<open>
  C10: for a trunk of the store (keys unique) that the user owns, that is not deleted and
  that has \<open>current_active_calls > 0\<close>, \<open>delete_sip_trunk\<close> raises ValueError "Cannot
  delete trunk with active calls" and the store after the call is the store before it: the
  trunk's \<open>deleted_at\<close> stays unset and its status is not modified, whether or not the
  database would have accepted a commit.
\<close>

theorem delete_with_active_calls_raises:
  assumes "distinct (map trunk_id (trunks db))" "t \<in> set (trunks db)"
    "user_id t = uid" "deleted_at t = None" "current_active_calls t > 0"
  shows "delete_sip_trunk db uid (trunk_id t) now commit_ok
           = (Inl (ValueError ''Cannot delete trunk with active calls''), db)"
  using assms(5) by (simp add: delete_sip_trunk_def get_trunk_found [OF assms(1-4)])

theorem delete_with_active_calls_raises_witness:
  "delete_sip_trunk \<lparr>trunks = [example_trunk], call_logs = []\<rparr> 7 1 (Naive 99) True
     = (Inl (ValueError ''Cannot delete trunk with active calls''),
        \<lparr>trunks = [example_trunk], call_logs = []\<rparr>)
   \<and> deleted_at example_trunk = None \<and> status example_trunk = ACTIVE
   \<and> current_active_calls example_trunk > 0"
proof -
  have "distinct (map trunk_id (trunks \<lparr>trunks = [example_trunk], call_logs = []\<rparr>))"
    "example_trunk \<in> set (trunks \<lparr>trunks = [example_trunk], call_logs = []\<rparr>)"
    "user_id example_trunk = 7" "deleted_at example_trunk = None"
    "current_active_calls example_trunk > 0"
    by (simp_all add: example_trunk_def)
  from delete_with_active_calls_raises [OF this, of "Naive 99" True]
  show ?thesis by (simp add: example_trunk_def)
qed

section \<open>Rounding of \<open>total_seconds\<close>\<close>

text \<open>
  Below \<open>2 ^ 34\<close> seconds (some 544 years) the binary64 quotient lies within \<open>2 ^ - 20\<close>
  of the exact one, less than the microsecond that separates a span from the next whole
  second, so the integer part of the float is the integer part of the exact quotient.
\<close>

lemma round_half_even_le: "of_int (round_half_even y) \<le> y + 1 / 2"
  unfolding round_half_even_def Let_def by (auto split: if_splits) linarith+

lemma round_half_even_ge_floor: "\<lfloor>y\<rfloor> \<le> round_half_even y"
  unfolding round_half_even_def Let_def by simp

lemma round_half_even_ge_int: "of_int K \<le> y \<Longrightarrow> K \<le> round_half_even y"
  using round_half_even_ge_floor [of y] le_floor_iff [of K y] by linarith

lemma exponent_small:
  assumes "0 < n" "n < 17179869184000000"
  shows "floor_log2_ratio n 1000000 - 52 \<le> - 19"
proof (cases "1000000 \<le> n")
  case True
  from assms(2) have "n div 1000000 < 2 ^ nat 34" by simp
  then have "bitlen (n div 1000000) \<le> 34"
    by (simp add: bitlen_le_iff_power)
  with True show ?thesis by (simp add: floor_log2_ratio_def)
next
  case False
  have "0 \<le> bitlen ((1000000 + n - 1) div n - 1)" by (rule bitlen_nonneg)
  with False show ?thesis by (simp add: floor_log2_ratio_def)
qed

lemma true_divide_floor_exact:
  assumes "0 \<le> n" "n < 17179869184000000"
  shows "\<lfloor>true_divide n 1000000\<rfloor> = n div 1000000"
proof (cases "n = 0")
  case True
  then show ?thesis by (simp add: true_divide_def)
next
  case False
  with assms have pos: "0 < n" by simp
  define e where "e = floor_log2_ratio n 1000000 - 52"
  define j where "j = nat (- e)"
  define k where "k = n div 1000000"
  define x :: real where "x = of_int n / 1000000"
  have e: "e \<le> - 19" unfolding e_def using pos assms(2) by (rule exponent_small)
  then have j: "19 \<le> j" and p: "pow2 e = 1 / 2 ^ j"
    by (simp_all add: j_def pow2_def)
  define m where "m = round_half_even (x * 2 ^ j)"
  have td: "true_divide n 1000000 = of_int m / 2 ^ j"
    using False by (simp add: true_divide_def e_def [symmetric] p m_def x_def Let_def)
  have kx: "of_int k \<le> x"
  proof -
    have "k * 1000000 \<le> n" unfolding k_def by simp
    then have "of_int (k * 1000000) \<le> (of_int n :: real)" by (simp only: of_int_le_iff)
    then show ?thesis by (simp add: x_def)
  qed
  have xk: "x \<le> of_int k + 999999 / 1000000"
  proof -
    have "n mod 1000000 \<le> 999999"
      using pos_mod_bound [of 1000000 n] by simp
    moreover have "n = k * 1000000 + n mod 1000000" unfolding k_def by simp
    ultimately have "n \<le> k * 1000000 + 999999" by linarith
    then have "(of_int n :: real) \<le> of_int (k * 1000000 + 999999)" by (simp only: of_int_le_iff)
    then show ?thesis by (simp add: x_def)
  qed
  have lower: "of_int k \<le> of_int m / (2 ^ j :: real)"
  proof -
    have "of_int (k * 2 ^ j) \<le> x * 2 ^ j" using kx by simp
    then have "k * 2 ^ j \<le> m" unfolding m_def by (rule round_half_even_ge_int)
    then have "of_int (k * 2 ^ j) \<le> (of_int m :: real)" by (simp only: of_int_le_iff)
    then show ?thesis by (simp add: field_simps)
  qed
  have upper: "of_int m / (2 ^ j :: real) < of_int k + 1"
  proof -
    have "of_int m \<le> x * 2 ^ j + 1 / 2" unfolding m_def by (rule round_half_even_le)
    then have "of_int m / (2 ^ j :: real) \<le> x + 1 / 2 / 2 ^ j"
      by (simp add: field_simps)
    moreover have "(2 :: real) ^ 19 \<le> 2 ^ j" using j by (intro power_increasing) simp_all
    then have "1 / 2 / (2 ^ j :: real) \<le> 1 / 2 / 2 ^ 19"
      by (intro divide_left_mono) simp_all
    ultimately have "of_int m / (2 ^ j :: real) \<le> x + 1 / 2 / 2 ^ 19" by linarith
    with xk show ?thesis by simp
  qed
  from lower upper show ?thesis unfolding td k_def [symmetric] by (simp add: floor_unique)
qed

lemma int_total_seconds_exact:
  assumes "\<bar>delta\<bar> < 17179869184000000"
  shows "int_total_seconds delta
           = (if 0 \<le> delta then delta div 1000000 else - ((- delta) div 1000000))"
  using assms by (simp add: int_total_seconds_def true_divide_floor_exact)




section \<open>Logging a call\<close>

lemma log_call_never_succeeds:
  "\<exists>e. fst (log_call db call_data fresh_id commit_ok) = Inl e
   \<and> snd (log_call db call_data fresh_id commit_ok) = db"
  by (simp add: log_call_def not_null_columns_def Let_def split: sum.splits option.splits)

text \<open>
  C9: the trunk exists and is full, so \<open>increment_active_calls\<close> answers False, and the
  database is ready to accept the commit (\<open>commit_ok\<close>). The call still fails: the
  \<open>CallLog\<close> is built without \<open>account_id\<close>, a NOT NULL column with no default, so the
  commit raises \<open>IntegrityError\<close>, the session is rolled back, and no call log is created or
  returned. By \<open>log_call_never_succeeds\<close> this is so for every store and request.
\<close>

theorem log_call_fails_at_commit:
  "get_trunk_by_id \<lparr>trunks = [example_trunk\<lparr>current_active_calls := 2\<rparr>], call_logs = []\<rparr>
       (new_sip_trunk_id example_request)
     = Inr (Some (example_trunk\<lparr>current_active_calls := 2\<rparr>))
   \<and> \<not> fst (increment_active_calls (example_trunk\<lparr>current_active_calls := 2\<rparr>))
   \<and> log_call \<lparr>trunks = [example_trunk\<lparr>current_active_calls := 2\<rparr>], call_logs = []\<rparr>
        example_request 12 True
      = (Inl IntegrityError,
         \<lparr>trunks = [example_trunk\<lparr>current_active_calls := 2\<rparr>], call_logs = []\<rparr>)"
  by (simp add: log_call_def get_trunk_by_id_def not_null_columns_def increment_active_calls_def
      can_handle_call_def is_active_def example_trunk_def example_request_def Let_def)

section \<open>Updating a call log\<close>

lemma release_on_end_never:
  "release_on_end db u (apply_update c u) = Inr (trunks db)"
  by (simp add: release_on_end_def apply_update_def field_value_def set_field_def
      split: option.splits)

lemma update_call_log_keeps_trunks:
  "trunks (snd (update_call_log db cid u ok)) = trunks db"
  by (simp add: update_call_log_def release_on_end_never Let_def
      split: sum.splits option.splits list.splits)

text \<open>
  C1: trunk 1 carries one active call, the call log of that call has no \<open>ended_at\<close>, and the
  request sets \<open>ended_at\<close>. The update is stored (with duration and cost), but the guard
  "\<open>update_data.ended_at and not call_log.ended_at\<close>" is read after the \<open>setattr\<close> loop has
  copied the request's \<open>ended_at\<close> into the call log, so it is false and the trunk keeps
  \<open>current_active_calls = 1\<close>: the capacity is not released.
\<close>

theorem call_end_releases_nothing:
  "ended_at example_call = None
   \<and> sip_trunk_id example_call = trunk_id example_trunk
   \<and> current_active_calls example_trunk = 1
   \<and> update_call_log \<lparr>trunks = [example_trunk], call_logs = [example_call]\<rparr> ''call-1''
        (no_update\<lparr>upd_ended_at := Some (Some (Aware 61000000))\<rparr>) True
      = (Inr (Some (example_call\<lparr>ended_at := Some (Aware 61000000),
                                  duration_seconds := Some 60, cost := Some (3 / 100)\<rparr>)),
         \<lparr>trunks = [example_trunk],
          call_logs = [example_call\<lparr>ended_at := Some (Aware 61000000),
                                    duration_seconds := Some 60, cost := Some (3 / 100)\<rparr>]\<rparr>)"
  by (simp add: update_call_log_def release_on_end_def bill_on_end_def apply_update_def
      field_value_def set_field_def get_trunk_by_id_def calculate_duration_def
      calculate_cost_def int_total_seconds_exact put_call_log_def not_null_columns_def
      example_call_def example_trunk_def no_update_def Let_def)


lemma scalar_one_or_none_Some:
  "scalar_one_or_none xs = Inr (Some x) \<longleftrightarrow> xs = [x]"
  by (cases xs rule: scalar_one_or_none.cases) simp_all














section \<open>Duration and cost\<close>




end
